theory Spec2Isabelle
  imports Complex_Main
begin

section \<open>Tensor values\<close>

text \<open>
  The program \<^verbatim>\<open>src/bigram_model.py\<close> computes on torch tensors and Python floats.
  An element is modelled as a real number or one of the three special values of
  floating-point arithmetic. The special values follow the IEEE rules that the program
  can reach (\<open>0/0\<close> is NaN, \<open>x/0\<close> is an infinity, \<open>log 0\<close> is minus infinity, the
  logarithm of a negative number is NaN). Finite values are exact reals: rounding and
  overflow of finite values and the sign of zero are not part of the model.
\<close>

datatype tfloat = NaN | NegInf | Fin real | PosInf

fun tadd :: "tfloat \<Rightarrow> tfloat \<Rightarrow> tfloat" where
  "tadd NaN _ = NaN"
| "tadd _ NaN = NaN"
| "tadd (Fin a) (Fin b) = Fin (a + b)"
| "tadd PosInf NegInf = NaN"
| "tadd NegInf PosInf = NaN"
| "tadd PosInf _ = PosInf"
| "tadd _ PosInf = PosInf"
| "tadd NegInf _ = NegInf"
| "tadd _ NegInf = NegInf"

fun tneg :: "tfloat \<Rightarrow> tfloat" where
  "tneg NaN = NaN"
| "tneg NegInf = PosInf"
| "tneg PosInf = NegInf"
| "tneg (Fin a) = Fin (- a)"

text \<open>The sign of a non-NaN value, as an integer in \<open>{-1, 0, 1}\<close>.\<close>

fun tsgn :: "tfloat \<Rightarrow> int" where
  "tsgn (Fin a) = (if a < 0 then - 1 else if a = 0 then 0 else 1)"
| "tsgn PosInf = 1"
| "tsgn NegInf = - 1"
| "tsgn NaN = 0"

definition inf_of_sign :: "int \<Rightarrow> tfloat" where
  "inf_of_sign s = (if s < 0 then NegInf else if s = 0 then NaN else PosInf)"

text \<open>
  True division. A finite non-zero value divided by zero is an infinity with the sign of
  the numerator (zero is taken as positive zero), \<open>0/0\<close> and \<open>inf/inf\<close> are NaN.
\<close>

fun tdiv :: "tfloat \<Rightarrow> tfloat \<Rightarrow> tfloat" where
  "tdiv NaN _ = NaN"
| "tdiv _ NaN = NaN"
| "tdiv (Fin a) (Fin b) = (if b = 0 then inf_of_sign (tsgn (Fin a)) else Fin (a / b))"
| "tdiv (Fin a) _ = Fin 0"
| "tdiv x (Fin b) = inf_of_sign (tsgn x * (if b < 0 then - 1 else 1))"
| "tdiv _ _ = NaN"

text \<open>\<^verbatim>\<open>torch.log\<close>: natural logarithm.\<close>

fun tlog :: "tfloat \<Rightarrow> tfloat" where
  "tlog NaN = NaN"
| "tlog NegInf = NaN"
| "tlog PosInf = PosInf"
| "tlog (Fin a) = (if a < 0 then NaN else if a = 0 then NegInf else Fin (ln a))"

text \<open>The comparison \<open>x <= y\<close> of floating-point values: false when either is NaN.\<close>

fun tle :: "tfloat \<Rightarrow> tfloat \<Rightarrow> bool" where
  "tle NaN _ = False"
| "tle _ NaN = False"
| "tle NegInf _ = True"
| "tle _ PosInf = True"
| "tle (Fin a) (Fin b) = (a \<le> b)"
| "tle _ _ = False"

text \<open>A one-dimensional tensor is a list, a two-dimensional tensor is the list of its rows.\<close>

type_synonym tensor1 = "tfloat list"
type_synonym tensor2 = "tfloat list list"

text \<open>The sum of all elements of a one-dimensional tensor.\<close>

fun tsum :: "tensor1 \<Rightarrow> tfloat" where
  "tsum [] = Fin 0"
| "tsum (x # xs) = tadd x (tsum xs)"

section \<open>Probability builder\<close>

text \<open>
  \<^verbatim>\<open>smoothed_bigram_counts = bigram_counts + smooth_factor\<close>: the scalar is added to every
  cell. The annotation of \<^verbatim>\<open>smooth_factor\<close> is \<^verbatim>\<open>int\<close>; Python does not enforce it, and
  the model takes any real number.
\<close>

definition smoothed_counts :: "tensor2 \<Rightarrow> real \<Rightarrow> tensor2" where
  "smoothed_counts bigram_counts smooth_factor =
     map (map (\<lambda>x. tadd x (Fin smooth_factor))) bigram_counts"

text \<open>
  \<^verbatim>\<open>denominator = smoothed.sum(dim=1).unsqueeze(1)\<close> and
  \<^verbatim>\<open>probabilities = smoothed / denominator\<close>: every row is divided by its own sum.

  The sum and the quotient of finite values are exact here. The program computes them in
  the type of the tensor: a float32 sum rounds and can overflow to infinity, an integer
  sum can wrap around, and every quotient is rounded to float32. The result below is the
  result of the program where that computation is exact (as for a row of zeros and for
  the small counts of the worked example). Nothing is stated below about how close to 1
  the rounded entries of a row add up.
\<close>

definition normalize_row :: "tensor1 \<Rightarrow> tensor1" where
  "normalize_row row = map (\<lambda>x. tdiv x (tsum row)) row"

definition bigrams_count_to_probabilities :: "tensor2 \<Rightarrow> real \<Rightarrow> tensor2" where
  "bigrams_count_to_probabilities bigram_counts smooth_factor =
     map normalize_row (smoothed_counts bigram_counts smooth_factor)"

text \<open>A count: a finite, non-negative cell.\<close>

fun is_count :: "tfloat \<Rightarrow> bool" where
  "is_count (Fin a) = (0 \<le> a)"
| "is_count _ = False"

text \<open>A probability: a finite cell in the closed interval from 0 to 1.\<close>

fun is_prob :: "tfloat \<Rightarrow> bool" where
  "is_prob (Fin a) = (0 \<le> a \<and> a \<le> 1)"
| "is_prob _ = False"

text \<open>The real number held by a finite cell (0 for the special values).\<close>

fun fin_val :: "tfloat \<Rightarrow> real" where
  "fin_val (Fin a) = a"
| "fin_val _ = 0"

section \<open>Python exceptions, indexing and strings\<close>

text \<open>
  The program defines no exception of its own and has no \<^verbatim>\<open>raise\<close> and no \<^verbatim>\<open>try\<close>: the
  exceptions it can end with are those of the operations it calls. A missing dictionary
  key raises KeyError (carrying the key), an index outside a tensor raises IndexError, the
  division of a Python float by the integer zero raises ZeroDivisionError, and
  \<^verbatim>\<open>torch.multinomial\<close> raises RuntimeError on weights it cannot sample from.
\<close>

datatype pykey = KStr string | KInt int

datatype pyexc = KeyError pykey | IndexError | ZeroDivisionError | RuntimeError

text \<open>
  Indexing one dimension of a tensor with a Python integer: indices from \<open>-n\<close> to \<open>-1\<close>
  count from the end, anything outside \<open>-n .. n-1\<close> raises IndexError.
\<close>

definition tensor_index :: "'a list \<Rightarrow> int \<Rightarrow> pyexc + 'a" where
  "tensor_index xs i =
     (let n = int (length xs) in
      if 0 \<le> i \<and> i < n then Inr (xs ! nat i)
      else if - n \<le> i \<and> i < 0 then Inr (xs ! nat (i + n))
      else Inl IndexError)"

text \<open>\<^verbatim>\<open>t[j, k]\<close> on a two-dimensional tensor.\<close>

definition tensor_index2 :: "tensor2 \<Rightarrow> int \<Rightarrow> int \<Rightarrow> pyexc + tfloat" where
  "tensor_index2 t j k =
     (case tensor_index t j of Inl e \<Rightarrow> Inl e | Inr row \<Rightarrow> tensor_index row k)"

text \<open>
  \<^verbatim>\<open>str.lower()\<close> on the characters of this model, which are bytes: the letters A to Z
  are mapped to a to z, every other character is unchanged.
\<close>

definition lower_char :: "char \<Rightarrow> char" where
  "lower_char c =
     (let n = (of_char c :: nat) in if 65 \<le> n \<and> n \<le> 90 then char_of (n + 32) else c)"

definition lower :: "string \<Rightarrow> string" where
  "lower w = map lower_char w"

text \<open>The default values of the parameters \<^verbatim>\<open>start_token\<close> and \<^verbatim>\<open>end_token\<close>.\<close>

definition default_start_token :: string where
  "default_start_token = ''<S>''"

definition default_end_token :: string where
  "default_end_token = ''<E>''"

section \<open>Sequence scorer\<close>

text \<open>
  The loop of \<^verbatim>\<open>calculate_log_likelihood\<close>:
  \<^verbatim>\<open>
  for i in range(1, len(processed_word)):
      j = char_to_index[processed_word[i - 1]]
      k = char_to_index[processed_word[i]]
      log_likelihood += torch.log(bigram_probabilities[j, k])
  \<close>
  \<^verbatim>\<open>processed_word[i]\<close> is a string of one character, and that string is the dictionary
  key. The first lookup that fails ends the loop with its exception.
\<close>

fun bigram_walk :: "tensor2 \<Rightarrow> (string \<rightharpoonup> int) \<Rightarrow> string \<Rightarrow> tfloat \<Rightarrow> pyexc + tfloat" where
  "bigram_walk P char_to_index (a # b # rest) log_likelihood =
     (case char_to_index [a] of
        None \<Rightarrow> Inl (KeyError (KStr [a]))
      | Some j \<Rightarrow>
         (case char_to_index [b] of
            None \<Rightarrow> Inl (KeyError (KStr [b]))
          | Some k \<Rightarrow>
             (case tensor_index2 P j k of
                Inl e \<Rightarrow> Inl e
              | Inr p \<Rightarrow> bigram_walk P char_to_index (b # rest) (tadd log_likelihood (tlog p)))))"
| "bigram_walk P char_to_index _ log_likelihood = Inr log_likelihood"

definition calculate_log_likelihood ::
  "string \<Rightarrow> tensor2 \<Rightarrow> (string \<rightharpoonup> int) \<Rightarrow> string \<Rightarrow> string \<Rightarrow> pyexc + tfloat" where
  "calculate_log_likelihood word P char_to_index start_token end_token =
     bigram_walk P char_to_index (start_token @ lower word @ end_token) (Fin 0)"

text \<open>
  The loop of \<^verbatim>\<open>calculate_neg_mean_log_likelihood\<close>, adding the log-likelihood of each
  word to the running total.
\<close>

fun total_over_words ::
  "string list \<Rightarrow> tensor2 \<Rightarrow> (string \<rightharpoonup> int) \<Rightarrow> string \<Rightarrow> string \<Rightarrow> tfloat \<Rightarrow> pyexc + tfloat" where
  "total_over_words [] P char_to_index start_token end_token total_ll = Inr total_ll"
| "total_over_words (word # ws) P char_to_index start_token end_token total_ll =
     (case calculate_log_likelihood word P char_to_index start_token end_token of
        Inl e \<Rightarrow> Inl e
      | Inr ll \<Rightarrow> total_over_words ws P char_to_index start_token end_token (tadd total_ll ll))"

text \<open>
  The division of a Python float by a Python integer: the integer zero raises
  ZeroDivisionError whatever the float is.
\<close>

definition py_float_div :: "tfloat \<Rightarrow> int \<Rightarrow> pyexc + tfloat" where
  "py_float_div x n = (if n = 0 then Inl ZeroDivisionError else Inr (tdiv x (Fin (of_int n))))"

text \<open>\<^verbatim>\<open>-total_log_likelihood.item() / len(words)\<close>: the negation binds first.\<close>

definition calculate_neg_mean_log_likelihood ::
  "string list \<Rightarrow> tensor2 \<Rightarrow> (string \<rightharpoonup> int) \<Rightarrow> string \<Rightarrow> string \<Rightarrow> pyexc + tfloat" where
  "calculate_neg_mean_log_likelihood words P char_to_index start_token end_token =
     (case total_over_words words P char_to_index start_token end_token (Fin 0) of
        Inl e \<Rightarrow> Inl e
      | Inr total_ll \<Rightarrow> py_float_div (tneg total_ll) (int (length words)))"

text \<open>
  The walk of the specification, written from its words: the processed word is the list
  of symbols "start token, the characters of the lower-cased word, end token", each token
  being one symbol, and the walk looks every adjacent pair of symbols up.
\<close>

fun symbol_walk ::
  "tensor2 \<Rightarrow> (string \<rightharpoonup> int) \<Rightarrow> string list \<Rightarrow> tfloat \<Rightarrow> pyexc + tfloat" where
  "symbol_walk P vocab (a # b # rest) acc =
     (case vocab a of
        None \<Rightarrow> Inl (KeyError (KStr a))
      | Some j \<Rightarrow>
         (case vocab b of
            None \<Rightarrow> Inl (KeyError (KStr b))
          | Some k \<Rightarrow>
             (case tensor_index2 P j k of
                Inl e \<Rightarrow> Inl e
              | Inr p \<Rightarrow> symbol_walk P vocab (b # rest) (tadd acc (tlog p)))))"
| "symbol_walk P vocab _ acc = Inr acc"

definition symbols_of :: "string \<Rightarrow> string list" where
  "symbols_of w = map (\<lambda>c. [c]) w"

definition spec_score_word ::
  "string \<Rightarrow> tensor2 \<Rightarrow> (string \<rightharpoonup> int) \<Rightarrow> string \<Rightarrow> string \<Rightarrow> pyexc + tfloat" where
  "spec_score_word word P vocab start_token end_token =
     symbol_walk P vocab ([start_token] @ symbols_of (lower word) @ [end_token]) (Fin 0)"

section \<open>Character sampler\<close>

text \<open>
  The program draws from torch's global random generator. The generator is modelled as
  the stream of the uniform variates it will deliver; a draw takes the head of the stream,
  reduced to the interval from 0 (included) to 1 (excluded), and leaves the tail.
\<close>

type_synonym rng = "nat \<Rightarrow> real"

definition rng_tail :: "rng \<Rightarrow> rng" where
  "rng_tail g = (\<lambda>n. g (Suc n))"

definition next_uniform :: "rng \<Rightarrow> real \<times> rng" where
  "next_uniform g = (frac (g 0), rng_tail g)"

text \<open>The generator that delivers the same variate at every draw.\<close>

definition constant_rng :: "real \<Rightarrow> rng" where
  "constant_rng u = (\<lambda>n. u)"

text \<open>
  \<^verbatim>\<open>torch.multinomial(weights, 1)\<close>, from its documentation: the weights need not sum to
  one, but must be non-negative and finite and have a non-zero sum, otherwise the call
  raises RuntimeError. Index \<open>j\<close> is drawn with probability \<open>weights[j] / sum\<close>: here by
  inversion of the cumulative weights at the uniform variate.
\<close>

definition multinomial_ok :: "tensor1 \<Rightarrow> bool" where
  "multinomial_ok weights =
     (list_all is_count weights \<and> (case tsum weights of Fin s \<Rightarrow> 0 < s | _ \<Rightarrow> False))"

fun pick :: "real \<Rightarrow> tensor1 \<Rightarrow> nat \<Rightarrow> nat" where
  "pick t [] i = i"
| "pick t (w # ws) i = (if t < fin_val w then i else pick (t - fin_val w) ws (Suc i))"

definition multinomial :: "tensor1 \<Rightarrow> rng \<Rightarrow> pyexc + (int \<times> rng)" where
  "multinomial weights g =
     (if multinomial_ok weights
      then (case next_uniform g of
              (u, g') \<Rightarrow> Inr (int (pick (u * fin_val (tsum weights)) weights 0), g'))
      else Inl RuntimeError)"

definition sample_next_character ::
  "int \<Rightarrow> tensor2 \<Rightarrow> (int \<rightharpoonup> string) \<Rightarrow> rng \<Rightarrow> pyexc + (string \<times> rng)" where
  "sample_next_character current_char_index probability_distribution idx_to_char g =
     (case tensor_index probability_distribution current_char_index of
        Inl e \<Rightarrow> Inl e
      | Inr current_probs \<Rightarrow>
         (case multinomial current_probs g of
            Inl e \<Rightarrow> Inl e
          | Inr (next_char_index, g') \<Rightarrow>
             (case idx_to_char next_char_index of
                None \<Rightarrow> Inl (KeyError (KInt next_char_index))
              | Some next_char \<Rightarrow> Inr (next_char, g'))))"

section \<open>Sequence generator\<close>

text \<open>
  The loop of \<^verbatim>\<open>generate_name\<close>, with the number of iterations left, the current
  symbol, the name built so far and the generator:
  \<^verbatim>\<open>
  for _ in range(max_length):
      current_char_index = char_to_idx[current_char]
      current_char = sample_next_character(current_char_index, bigram_probabilities, idx_to_char)
      if current_char == end_token:
          break
      generated_name += current_char
  \<close>
\<close>

fun generate_loop ::
  "nat \<Rightarrow> string \<Rightarrow> (string \<rightharpoonup> int) \<Rightarrow> (int \<rightharpoonup> string) \<Rightarrow> tensor2 \<Rightarrow> string \<Rightarrow> string \<Rightarrow> rng
     \<Rightarrow> pyexc + (string \<times> rng)" where
  "generate_loop 0 end_token char_to_idx idx_to_char P current_char generated_name g =
     Inr (generated_name, g)"
| "generate_loop (Suc n) end_token char_to_idx idx_to_char P current_char generated_name g =
     (case char_to_idx current_char of
        None \<Rightarrow> Inl (KeyError (KStr current_char))
      | Some current_char_index \<Rightarrow>
         (case sample_next_character current_char_index P idx_to_char g of
            Inl e \<Rightarrow> Inl e
          | Inr (next_char, g') \<Rightarrow>
             if next_char = end_token then Inr (generated_name, g')
             else generate_loop n end_token char_to_idx idx_to_char P next_char
                    (generated_name @ next_char) g'))"

text \<open>\<^verbatim>\<open>range(max_length)\<close> is empty for a negative \<^verbatim>\<open>max_length\<close>.\<close>

definition generate_name ::
  "string \<Rightarrow> string \<Rightarrow> (string \<rightharpoonup> int) \<Rightarrow> (int \<rightharpoonup> string) \<Rightarrow> tensor2 \<Rightarrow> int \<Rightarrow> rng
     \<Rightarrow> pyexc + (string \<times> rng)" where
  "generate_name start_token end_token char_to_idx idx_to_char P max_length g =
     generate_loop (nat max_length) end_token char_to_idx idx_to_char P start_token [] g"

text \<open>
  The same loop, recording what the name is made of: the list of the symbols appended, and
  whether the loop was left by \<^verbatim>\<open>break\<close> (the end token was sampled).
\<close>

fun sample_trace ::
  "nat \<Rightarrow> string \<Rightarrow> (string \<rightharpoonup> int) \<Rightarrow> (int \<rightharpoonup> string) \<Rightarrow> tensor2 \<Rightarrow> string \<Rightarrow> rng
     \<Rightarrow> pyexc + (string list \<times> bool \<times> rng)" where
  "sample_trace 0 end_token char_to_idx idx_to_char P current_char g = Inr ([], False, g)"
| "sample_trace (Suc n) end_token char_to_idx idx_to_char P current_char g =
     (case char_to_idx current_char of
        None \<Rightarrow> Inl (KeyError (KStr current_char))
      | Some current_char_index \<Rightarrow>
         (case sample_next_character current_char_index P idx_to_char g of
            Inl e \<Rightarrow> Inl e
          | Inr (next_char, g') \<Rightarrow>
             if next_char = end_token then Inr ([], True, g')
             else (case sample_trace n end_token char_to_idx idx_to_char P next_char g' of
                     Inl e \<Rightarrow> Inl e
                   | Inr (syms, stopped, g'') \<Rightarrow> Inr (next_char # syms, stopped, g''))))"

section \<open>Properties of the probability builder\<close>

lemma is_count_Fin: "is_count x \<Longrightarrow> x = Fin (fin_val x) \<and> 0 \<le> fin_val x"
  by (cases x) auto

lemma tsum_counts:
  "\<forall>x\<in>set row. is_count x \<Longrightarrow>
     tsum row = Fin (sum_list (map fin_val row)) \<and> 0 \<le> sum_list (map fin_val row)"
proof (induction row)
  case Nil
  then show ?case by simp
next
  case (Cons x row)
  then obtain a where "x = Fin a" "0 \<le> a" by (cases x) auto
  with Cons show ?case by simp
qed

lemma count_le_sum:
  "\<forall>x\<in>set row. is_count x \<Longrightarrow> x \<in> set row \<Longrightarrow> fin_val x \<le> sum_list (map fin_val row)"
proof (induction row)
  case Nil
  then show ?case by simp
next
  case (Cons y row)
  have hy: "0 \<le> fin_val y" using Cons.prems(1) is_count_Fin by simp
  have hs: "0 \<le> sum_list (map fin_val row)" using Cons.prems(1) tsum_counts [of row] by simp
  show ?case
  proof (cases "x = y")
    case True
    with hs show ?thesis by simp
  next
    case False
    with Cons have "fin_val x \<le> sum_list (map fin_val row)" by simp
    with hy show ?thesis by simp
  qed
qed

lemma zero_total_all_zero:
  assumes "\<forall>x\<in>set row. is_count x" and "tsum row = Fin 0" and "x \<in> set row"
  shows "x = Fin 0"
proof -
  have "sum_list (map fin_val row) = 0" using tsum_counts [OF assms(1)] assms(2) by simp
  then have "fin_val x \<le> 0" using count_le_sum [OF assms(1,3)] by simp
  then show ?thesis using is_count_Fin [of x] assms(1,3) by (metis antisym)
qed

text \<open>
  Claim C2 (as stated: a row whose total after smoothing is zero makes the builder fail
  with an error instead of returning NaN). The program has no check of the denominator:
  for the counts \<open>[[0, 0], [1, 3]]\<close> and smoothing 0 it returns a matrix, whose first row
  is \<open>[NaN, NaN]\<close>.
\<close>

theorem build_probabilities_zero_row_counterexample:
  "bigrams_count_to_probabilities [[Fin 0, Fin 0], [Fin 1, Fin 3]] 0
     = [[NaN, NaN], [Fin (1/4), Fin (3/4)]]"
  by (simp add: bigrams_count_to_probabilities_def smoothed_counts_def normalize_row_def
      inf_of_sign_def)

text \<open>
  Claim C2, amended. If the cells of row \<open>i\<close> of the smoothed matrix are finite and
  non-negative and their total is zero, \<^verbatim>\<open>bigrams_count_to_probabilities\<close> raises nothing:
  it returns a matrix with as many rows as the count matrix, in which every entry of row
  \<open>i\<close> is NaN (the result of \<open>0/0\<close>).
\<close>

theorem build_probabilities_zero_row_nan:
  assumes "i < length bigram_counts"
    and "\<forall>x\<in>set (smoothed_counts bigram_counts smooth_factor ! i). is_count x"
    and "tsum (smoothed_counts bigram_counts smooth_factor ! i) = Fin 0"
  shows "length (bigrams_count_to_probabilities bigram_counts smooth_factor) = length bigram_counts
         \<and> bigrams_count_to_probabilities bigram_counts smooth_factor ! i
             = replicate (length (bigram_counts ! i)) NaN"
proof -
  let ?r = "smoothed_counts bigram_counts smooth_factor ! i"
  have len: "length ?r = length (bigram_counts ! i)"
    using assms(1) by (simp add: smoothed_counts_def)
  have "tdiv x (tsum ?r) = NaN" if "x \<in> set ?r" for x
    using zero_total_all_zero [OF assms(2,3) that] assms(3) by (simp add: inf_of_sign_def)
  then have "normalize_row ?r = replicate (length ?r) NaN"
    by (simp add: normalize_row_def map_replicate_const [symmetric] cong: map_cong)
  then show ?thesis using assms(1) len
    by (simp add: bigrams_count_to_probabilities_def smoothed_counts_def)
qed

theorem build_probabilities_zero_row_nan_witness:
  "(1::nat) < length [[Fin 2, Fin 1], [Fin 0, Fin 0]] \<and>
   list_all is_count (smoothed_counts [[Fin 2, Fin 1], [Fin 0, Fin 0]] 0 ! 1) \<and>
   tsum (smoothed_counts [[Fin 2, Fin 1], [Fin 0, Fin 0]] 0 ! 1) = Fin 0 \<and>
   length (bigrams_count_to_probabilities [[Fin 2, Fin 1], [Fin 0, Fin 0]] 0) = 2 \<and>
   bigrams_count_to_probabilities [[Fin 2, Fin 1], [Fin 0, Fin 0]] 0 ! 1 = [NaN, NaN]"
proof -
  have h1: "(1::nat) < length [[Fin 2, Fin 1], [Fin 0, Fin 0]]" by simp
  have h2: "\<forall>x\<in>set (smoothed_counts [[Fin 2, Fin 1], [Fin 0, Fin 0]] 0 ! 1). is_count x"
    by (simp add: smoothed_counts_def)
  have h3: "tsum (smoothed_counts [[Fin 2, Fin 1], [Fin 0, Fin 0]] 0 ! 1) = Fin 0"
    by (simp add: smoothed_counts_def)
  have r: "replicate (length ([[Fin 2, Fin 1], [Fin 0, Fin 0]] ! 1)) NaN = [NaN, NaN]"
    by (simp add: numeral_2_eq_2)
  show ?thesis
    using h1 h2 h3 build_probabilities_zero_row_nan [OF h1 h2 h3]
    unfolding r list_all_iff by simp
qed

section \<open>Properties of the corpus score\<close>

text \<open>
  Claim C3 (as stated: on the empty word list the corpus score fails with the error
  "empty corpus" rather than dividing by zero). The program has no test for the empty
  list: the loop does nothing and the division by \<^verbatim>\<open>len(words)\<close>, which is 0, is carried
  out; the call ends with the ZeroDivisionError of that division.
\<close>

theorem score_corpus_empty_counterexample:
  "calculate_neg_mean_log_likelihood [] [[Fin 1]] [''a'' \<mapsto> 0] ''<S>'' ''<E>''
     = Inl ZeroDivisionError"
  by (simp add: calculate_neg_mean_log_likelihood_def py_float_div_def)

text \<open>
  Claim C3, amended. On the empty word list \<^verbatim>\<open>calculate_neg_mean_log_likelihood\<close> returns
  no value: whatever the matrix, the vocabulary and the tokens are, it divides by the
  length 0 and ends with Python's ZeroDivisionError.
\<close>

theorem score_corpus_empty_zero_division:
  "calculate_neg_mean_log_likelihood [] P char_to_index start_token end_token
     = Inl ZeroDivisionError"
  by (simp add: calculate_neg_mean_log_likelihood_def py_float_div_def)

lemma tadd_zero_left: "tadd (Fin 0) x = x"
  by (cases x) auto

lemma tdiv_one: "tdiv x (Fin 1) = x"
  by (cases x) (auto simp: inf_of_sign_def)

text \<open>
  Claim C7. For every word \<open>w\<close>, matrix, vocabulary and pair of tokens, the corpus score
  of the one-element list \<open>[w]\<close> is the negation of the log-likelihood of \<open>w\<close>; when the
  log-likelihood of \<open>w\<close> ends with an exception, the corpus score ends with the same one.
\<close>

theorem score_corpus_single_word:
  "calculate_neg_mean_log_likelihood [w] P char_to_index start_token end_token
     = map_sum id tneg (calculate_log_likelihood w P char_to_index start_token end_token)"
  by (cases "calculate_log_likelihood w P char_to_index start_token end_token")
     (simp_all add: calculate_neg_mean_log_likelihood_def py_float_div_def tadd_zero_left tdiv_one)

section \<open>Properties of the word score\<close>

lemma tensor_index_mem: "tensor_index xs i = Inr x \<Longrightarrow> x \<in> set xs"
  by (auto simp: tensor_index_def Let_def split: if_splits)

lemma tensor_index_error: "tensor_index xs i = Inl e \<Longrightarrow> e = IndexError"
  by (auto simp: tensor_index_def Let_def split: if_splits)

lemma tensor_index_in_range:
  "- int (length xs) \<le> i \<Longrightarrow> i < int (length xs) \<Longrightarrow> \<exists>x. tensor_index xs i = Inr x"
  by (auto simp: tensor_index_def Let_def)

lemma tensor_index2_mem:
  "tensor_index2 P j k = Inr p \<Longrightarrow> \<exists>row\<in>set P. p \<in> set row"
  by (auto simp: tensor_index2_def split: sum.splits dest: tensor_index_mem)

lemma tensor_index2_error: "tensor_index2 P j k = Inl e \<Longrightarrow> e = IndexError"
  by (auto simp: tensor_index2_def split: sum.splits dest: tensor_index_error)

lemma tlog_prob_nonpos: "is_prob p \<Longrightarrow> tle (tlog p) (Fin 0)"
  by (cases p) auto

lemma tadd_nonpos: "tle x (Fin 0) \<Longrightarrow> tle y (Fin 0) \<Longrightarrow> tle (tadd x y) (Fin 0)"
  by (cases x; cases y) auto

lemma bigram_walk_nonpos:
  "\<forall>row\<in>set P. \<forall>p\<in>set row. is_prob p \<Longrightarrow> tle acc (Fin 0) \<Longrightarrow>
     bigram_walk P v cs acc = Inr x \<Longrightarrow> tle x (Fin 0)"
proof (induction P v cs acc rule: bigram_walk.induct)
  case (1 P v a b rest acc)
  from "1.prems"(3) obtain j k p where j: "v [a] = Some j" and k: "v [b] = Some k"
    and p: "tensor_index2 P j k = Inr p"
    and rec: "bigram_walk P v (b # rest) (tadd acc (tlog p)) = Inr x"
    by (auto split: option.splits sum.splits)
  have "is_prob p" using tensor_index2_mem [OF p] "1.prems"(1) by blast
  then have "tle (tadd acc (tlog p)) (Fin 0)"
    using "1.prems"(2) tadd_nonpos tlog_prob_nonpos by blast
  then show ?case using "1.IH" [OF j k p "1.prems"(1) _ rec] by blast
qed simp_all


lemma bigram_walk_succeeds:
  "\<forall>c\<in>set cs. \<exists>j. v [c] = Some j \<and> - int (length P) \<le> j \<and> j < int (length P) \<Longrightarrow>
   \<forall>row\<in>set P. length row = length P \<Longrightarrow>
   \<exists>x. bigram_walk P v cs acc = Inr x"
proof (induction P v cs acc rule: bigram_walk.induct)
  case (1 P v a b rest acc)
  from "1.prems"(1) obtain j k where j: "v [a] = Some j" "- int (length P) \<le> j" "j < int (length P)"
    and k: "v [b] = Some k" "- int (length P) \<le> k" "k < int (length P)" by auto
  from tensor_index_in_range [OF j(2,3)] obtain row where row: "tensor_index P j = Inr row" by blast
  then have "length row = length P" using "1.prems"(2) tensor_index_mem [OF row] by simp
  with tensor_index_in_range [of row k] k obtain p where "tensor_index row k = Inr p" by auto
  with row have p: "tensor_index2 P j k = Inr p" by (simp add: tensor_index2_def)
  have "\<exists>x. bigram_walk P v (b # rest) (tadd acc (tlog p)) = Inr x"
    using "1.IH" [OF j(1) k(1) p] "1.prems" by simp
  then show ?case using j k p by simp
qed simp_all

text \<open>
  Claim C6. For every word, vocabulary and pair of tokens and every probability matrix
  whose entries all lie between 0 and 1, a value returned by \<^verbatim>\<open>calculate_log_likelihood\<close>
  is at most 0 (it is a non-positive number or minus infinity, never NaN). The value is
  returned whenever every character of the processed word is a key of the vocabulary whose
  index addresses the square matrix.
\<close>

theorem score_word_nonpositive:
  assumes "\<forall>row\<in>set P. \<forall>p\<in>set row. is_prob p"
  shows "(\<forall>x. calculate_log_likelihood word P char_to_index start_token end_token = Inr x
             \<longrightarrow> tle x (Fin 0))
       \<and> ((\<forall>c\<in>set (start_token @ lower word @ end_token).
              \<exists>j. char_to_index [c] = Some j \<and> - int (length P) \<le> j \<and> j < int (length P))
            \<and> (\<forall>row\<in>set P. length row = length P)
           \<longrightarrow> (\<exists>x. calculate_log_likelihood word P char_to_index start_token end_token = Inr x
                    \<and> tle x (Fin 0)))"
proof -
  have a: "tle x (Fin 0)"
    if "calculate_log_likelihood word P char_to_index start_token end_token = Inr x" for x
    using bigram_walk_nonpos [OF assms, of "Fin 0"] that
    by (simp add: calculate_log_likelihood_def)
  have b: "\<exists>x. calculate_log_likelihood word P char_to_index start_token end_token = Inr x"
    if "\<forall>c\<in>set (start_token @ lower word @ end_token).
              \<exists>j. char_to_index [c] = Some j \<and> - int (length P) \<le> j \<and> j < int (length P)"
      and "\<forall>row\<in>set P. length row = length P"
    using bigram_walk_succeeds [OF that] by (simp add: calculate_log_likelihood_def)
  from a b show ?thesis by blast
qed


theorem score_word_nonpositive_witness:
  "list_all (list_all is_prob)
      [[Fin 0, Fin 0, Fin (1/2)], [Fin 1, Fin 0, Fin 0], [Fin 0, Fin (1/2), Fin (1/2)]]
   \<and> list_all (\<lambda>c. \<exists>j. [''-'' \<mapsto> 0, ''.'' \<mapsto> 1, ''a'' \<mapsto> 2] [c] = Some j \<and> - 3 \<le> j \<and> j < (3::int))
        (''-'' @ lower ''A'' @ ''.'')
   \<and> list_all (\<lambda>row. length row = 3)
        [[Fin 0, Fin 0, Fin (1/2)], [Fin 1, Fin 0, Fin 0], [Fin 0, Fin (1/2), Fin (1/2)]]
   \<and> calculate_log_likelihood ''A''
        [[Fin 0, Fin 0, Fin (1/2)], [Fin 1, Fin 0, Fin 0], [Fin 0, Fin (1/2), Fin (1/2)]]
        [''-'' \<mapsto> 0, ''.'' \<mapsto> 1, ''a'' \<mapsto> 2] ''-'' ''.'' = Inr (Fin (ln (1/2) + ln (1/2)))
   \<and> tle (Fin (ln (1/2) + ln (1/2))) (Fin 0)"
proof -
  let ?P = "[[Fin 0, Fin 0, Fin (1/2)], [Fin 1, Fin 0, Fin 0], [Fin 0, Fin (1/2), Fin (1/2)]]"
  let ?v = "[''-'' \<mapsto> 0, ''.'' \<mapsto> 1, ''a'' \<mapsto> (2::int)]"
  have h: "\<forall>row\<in>set ?P. \<forall>p\<in>set row. is_prob p" by simp
  have lw: "lower ''A'' = ''a''" by code_simp
  have c: "\<forall>c\<in>set (''-'' @ lower ''A'' @ ''.''). \<exists>j. ?v [c] = Some j \<and> - 3 \<le> j \<and> j < (3::int)"
    unfolding lw by simp
  have r: "\<forall>row\<in>set ?P. length row = 3" by simp
  have e: "calculate_log_likelihood ''A'' ?P ?v ''-'' ''.'' = Inr (Fin (ln (1/2) + ln (1/2)))"
    unfolding calculate_log_likelihood_def lw by (simp add: tensor_index2_def tensor_index_def)
  from score_word_nonpositive [OF h, of "''A''" ?v "''-''" "''.''"] c r e
  have "tle (Fin (ln (1/2) + ln (1/2))) (Fin 0)" by simp
  with h c r e show ?thesis unfolding list_all_iff by blast
qed

lemma bigram_walk_unknown:
  "\<exists>c\<in>set cs. v [c] = None \<Longrightarrow> 2 \<le> length cs \<Longrightarrow>
   \<exists>e. bigram_walk P v cs acc = Inl e
        \<and> (e = IndexError \<or> (\<exists>c\<in>set cs. e = KeyError (KStr [c]) \<and> v [c] = None))"
proof (induction P v cs acc rule: bigram_walk.induct)
  case (1 P v a b rest acc)
  show ?case
  proof (cases "v [a]")
    case None
    then show ?thesis by simp
  next
    case (Some j)
    note j = this
    show ?thesis
    proof (cases "v [b]")
      case None
      with j show ?thesis by simp
    next
      case (Some k)
      note k = this
      show ?thesis
      proof (cases "tensor_index2 P j k")
        case (Inl e)
        then have "e = IndexError" by (rule tensor_index2_error)
        with Inl j k show ?thesis by simp
      next
        case (Inr p)
        from "1.prems"(1) j k obtain c where c: "c \<in> set rest" "v [c] = None" by auto
        then have "2 \<le> length (b # rest)" by (cases rest) auto
        with "1.IH" [OF j k Inr] c
        obtain e where "bigram_walk P v (b # rest) (tadd acc (tlog p)) = Inl e"
          "e = IndexError \<or> (\<exists>c\<in>set (b # rest). e = KeyError (KStr [c]) \<and> v [c] = None)"
          by auto
        with j k Inr show ?thesis by auto
      qed
    qed
  qed
qed simp_all

text \<open>
  Claim C4 (as stated: a word with a symbol that is not in the vocabulary makes the score
  fail with the error "unknown symbol", and the symbol is never skipped). Three runs of
  the program on the word \<open>az\<close> or \<open>z\<close>, where \<open>z\<close> is not a key of the vocabulary. The
  program has no error of its own: the first run ends with the KeyError of the dictionary
  lookup of \<open>z\<close>. In the second run the matrix is smaller than the vocabulary, and the call
  ends with the IndexError of the first matrix lookup, before \<open>z\<close> is reached. In the third
  run both tokens are empty: the processed word \<open>z\<close> has no pair of characters, nothing is
  looked up and the value 0 is returned.
\<close>

theorem score_word_unknown_symbol_counterexample:
  "calculate_log_likelihood ''az''
     [[Fin 0, Fin 0, Fin 1], [Fin 1, Fin 0, Fin 0], [Fin 0, Fin (1/2), Fin (1/2)]]
     [''-'' \<mapsto> 0, ''.'' \<mapsto> 1, ''a'' \<mapsto> 2] ''-'' ''.'' = Inl (KeyError (KStr ''z''))
   \<and> calculate_log_likelihood ''az'' [[Fin (1/2), Fin (1/2)], [Fin (1/2), Fin (1/2)]]
       [''-'' \<mapsto> 0, ''.'' \<mapsto> 1, ''a'' \<mapsto> 2] ''-'' ''.'' = Inl IndexError
   \<and> calculate_log_likelihood ''z''
       [[Fin 0, Fin 0, Fin 1], [Fin 1, Fin 0, Fin 0], [Fin 0, Fin (1/2), Fin (1/2)]]
       [''-'' \<mapsto> 0, ''.'' \<mapsto> 1, ''a'' \<mapsto> 2] [] [] = Inr (Fin 0)"
proof -
  have az: "lower ''az'' = ''az''" by code_simp
  have z: "lower ''z'' = ''z''" by code_simp
  show ?thesis unfolding calculate_log_likelihood_def az z
    by (simp add: tensor_index2_def tensor_index_def)
qed

text \<open>
  Claim C4, amended. If the word, lower-cased, contains a character that is not a key of
  \<^verbatim>\<open>char_to_index\<close>, and the processed word has at least two characters (as it has with
  any non-empty token), then \<^verbatim>\<open>calculate_log_likelihood\<close> returns no value: it ends with
  the KeyError of a character of the processed word that is not a key, or with the
  IndexError of an earlier matrix lookup. The symbol is never skipped.
\<close>

theorem score_word_unknown_symbol:
  assumes "c \<in> set (lower word)" and "char_to_index [c] = None"
    and "2 \<le> length (start_token @ lower word @ end_token)"
  shows "\<exists>e. calculate_log_likelihood word P char_to_index start_token end_token = Inl e
            \<and> (e = IndexError
                \<or> (\<exists>c'\<in>set (start_token @ lower word @ end_token).
                      e = KeyError (KStr [c']) \<and> char_to_index [c'] = None))"
  unfolding calculate_log_likelihood_def
  using assms by (intro bigram_walk_unknown) auto

theorem score_word_unknown_symbol_witness:
  "CHR ''z'' \<in> set (lower ''aZ'')
   \<and> [''-'' \<mapsto> 0, ''.'' \<mapsto> 1, ''a'' \<mapsto> (2::int)] ''z'' = None
   \<and> 2 \<le> length (''-'' @ lower ''aZ'' @ ''.'')
   \<and> calculate_log_likelihood ''aZ''
        [[Fin 0, Fin 0, Fin 1], [Fin 1, Fin 0, Fin 0], [Fin 0, Fin (1/2), Fin (1/2)]]
        [''-'' \<mapsto> 0, ''.'' \<mapsto> 1, ''a'' \<mapsto> 2] ''-'' ''.'' = Inl (KeyError (KStr ''z''))"
proof -
  let ?P = "[[Fin 0, Fin 0, Fin 1], [Fin 1, Fin 0, Fin 0], [Fin 0, Fin (1/2), Fin (1/2)]]"
  let ?v = "[''-'' \<mapsto> 0, ''.'' \<mapsto> 1, ''a'' \<mapsto> (2::int)]"
  have lw: "lower ''aZ'' = ''az''" by code_simp
  have h1: "CHR ''z'' \<in> set (lower ''aZ'')" unfolding lw by simp
  have h2: "?v ''z'' = None" by simp
  have h3: "2 \<le> length (''-'' @ lower ''aZ'' @ ''.'')" unfolding lw by simp
  have "\<exists>e. calculate_log_likelihood ''aZ'' ?P ?v ''-'' ''.'' = Inl e"
    using score_word_unknown_symbol [where c = "CHR ''z''" and word = "''aZ''"
        and char_to_index = ?v and start_token = "''-''" and end_token = "''.''" and P = ?P]
      h1 h2 h3 by blast
  moreover have "calculate_log_likelihood ''aZ'' ?P ?v ''-'' ''.'' = Inl (KeyError (KStr ''z''))"
    unfolding calculate_log_likelihood_def lw by (simp add: tensor_index2_def tensor_index_def)
  ultimately show ?thesis using h1 h2 h3 by blast
qed

lemma bigram_walk_symbols:
  "bigram_walk P v cs acc = symbol_walk P v (symbols_of cs) acc"
  by (induction P v cs acc rule: bigram_walk.induct)
     (auto simp: symbols_of_def split: option.splits sum.splits)


text \<open>
  Claim C10. \<^verbatim>\<open>calculate_log_likelihood\<close> walks the characters of the concatenation
  \<^verbatim>\<open>start_token + word.lower() + end_token\<close>: its result is that of the walk over
  symbols in which every character of the concatenation, those of the tokens included, is
  a symbol of its own. When both tokens are one character long this is the walk of the
  specification, with each token as one symbol. With the default tokens \<open><S>\<close> and \<open><E>\<close>
  it is not: on a vocabulary holding the two tokens as keys the program ends with the
  KeyError of the character \<open><\<close>, where the walk of the specification returns a value.
\<close>

theorem score_word_walks_characters:
  "calculate_log_likelihood word P char_to_index start_token end_token
     = symbol_walk P char_to_index (symbols_of (start_token @ lower word @ end_token)) (Fin 0)
   \<and> (length start_token = 1 \<and> length end_token = 1 \<longrightarrow>
        calculate_log_likelihood word P char_to_index start_token end_token
          = spec_score_word word P char_to_index start_token end_token)
   \<and> calculate_log_likelihood ''ab'' [[Fin 1, Fin 1, Fin 1], [Fin 1, Fin 1, Fin 1], [Fin 1, Fin 1, Fin 1]]
        [''<S>'' \<mapsto> 0, ''<E>'' \<mapsto> 1, ''a'' \<mapsto> 2, ''b'' \<mapsto> 2] default_start_token default_end_token
       = Inl (KeyError (KStr ''<''))
   \<and> spec_score_word ''ab'' [[Fin 1, Fin 1, Fin 1], [Fin 1, Fin 1, Fin 1], [Fin 1, Fin 1, Fin 1]]
        [''<S>'' \<mapsto> 0, ''<E>'' \<mapsto> 1, ''a'' \<mapsto> 2, ''b'' \<mapsto> 2] default_start_token default_end_token
       = Inr (Fin 0)"
proof -
  have a: "calculate_log_likelihood word P char_to_index start_token end_token
     = symbol_walk P char_to_index (symbols_of (start_token @ lower word @ end_token)) (Fin 0)"
    by (simp add: calculate_log_likelihood_def bigram_walk_symbols)
  have b: "calculate_log_likelihood word P char_to_index start_token end_token
          = spec_score_word word P char_to_index start_token end_token"
    if "length start_token = 1 \<and> length end_token = 1"
  proof -
    from that obtain s e where "start_token = [s]" "end_token = [e]"
      by (auto simp: length_Suc_conv)
    then show ?thesis unfolding a by (simp add: spec_score_word_def symbols_of_def)
  qed
  have lw: "lower ''ab'' = ''ab''" by code_simp
  have c: "calculate_log_likelihood ''ab'' [[Fin 1, Fin 1, Fin 1], [Fin 1, Fin 1, Fin 1], [Fin 1, Fin 1, Fin 1]]
        [''<S>'' \<mapsto> 0, ''<E>'' \<mapsto> 1, ''a'' \<mapsto> 2, ''b'' \<mapsto> 2] default_start_token default_end_token
       = Inl (KeyError (KStr ''<''))"
    unfolding calculate_log_likelihood_def lw default_start_token_def default_end_token_def
    by simp
  have d: "spec_score_word ''ab'' [[Fin 1, Fin 1, Fin 1], [Fin 1, Fin 1, Fin 1], [Fin 1, Fin 1, Fin 1]]
        [''<S>'' \<mapsto> 0, ''<E>'' \<mapsto> 1, ''a'' \<mapsto> 2, ''b'' \<mapsto> 2] default_start_token default_end_token
       = Inr (Fin 0)"
    unfolding spec_score_word_def lw default_start_token_def default_end_token_def
    by (simp add: symbols_of_def tensor_index2_def tensor_index_def)
  from a b c d show ?thesis by blast
qed

theorem score_word_walks_characters_witness:
  "length ''-'' = 1 \<and> length ''.'' = 1
   \<and> calculate_log_likelihood ''Ab'' [[Fin 0, Fin 0, Fin (1/2)], [Fin 1, Fin 0, Fin 0], [Fin 0, Fin (1/2), Fin (1/2)]]
        [''-'' \<mapsto> 0, ''.'' \<mapsto> 1, ''a'' \<mapsto> 2, ''b'' \<mapsto> 2] ''-'' ''.''
      = spec_score_word ''Ab'' [[Fin 0, Fin 0, Fin (1/2)], [Fin 1, Fin 0, Fin 0], [Fin 0, Fin (1/2), Fin (1/2)]]
        [''-'' \<mapsto> 0, ''.'' \<mapsto> 1, ''a'' \<mapsto> 2, ''b'' \<mapsto> 2] ''-'' ''.''
   \<and> spec_score_word ''Ab'' [[Fin 0, Fin 0, Fin (1/2)], [Fin 1, Fin 0, Fin 0], [Fin 0, Fin (1/2), Fin (1/2)]]
        [''-'' \<mapsto> 0, ''.'' \<mapsto> 1, ''a'' \<mapsto> 2, ''b'' \<mapsto> 2] ''-'' ''.''
      = Inr (Fin (ln (1/2) + ln (1/2) + ln (1/2)))"
proof -
  have h: "length ''-'' = 1 \<and> length ''.'' = 1" by simp
  have lw: "lower ''Ab'' = ''ab''" by code_simp
  have v: "spec_score_word ''Ab'' [[Fin 0, Fin 0, Fin (1/2)], [Fin 1, Fin 0, Fin 0], [Fin 0, Fin (1/2), Fin (1/2)]]
        [''-'' \<mapsto> 0, ''.'' \<mapsto> 1, ''a'' \<mapsto> 2, ''b'' \<mapsto> 2] ''-'' ''.''
      = Inr (Fin (ln (1/2) + ln (1/2) + ln (1/2)))"
    unfolding spec_score_word_def lw by (simp add: symbols_of_def tensor_index2_def tensor_index_def)
  from score_word_walks_characters [of "''Ab''" "[[Fin 0, Fin 0, Fin (1/2)], [Fin 1, Fin 0, Fin 0], [Fin 0, Fin (1/2), Fin (1/2)]]"
      "[''-'' \<mapsto> 0, ''.'' \<mapsto> 1, ''a'' \<mapsto> 2, ''b'' \<mapsto> 2]" "''-''" "''.''"] h v
  show ?thesis by blast
qed

section \<open>Properties of the character sampler\<close>

lemma pick_positive:
  "\<forall>w\<in>set ws. is_count w \<Longrightarrow> 0 \<le> t \<Longrightarrow> t < sum_list (map fin_val ws) \<Longrightarrow>
   \<exists>k<length ws. pick t ws i = i + k \<and> 0 < fin_val (ws ! k)"
proof (induction ws arbitrary: t i)
  case Nil
  then show ?case by simp
next
  case (Cons w ws)
  show ?case
  proof (cases "t < fin_val w")
    case True
    with Cons.prems(2) have "pick t (w # ws) i = i + 0 \<and> 0 < fin_val ((w # ws) ! 0)" by simp
    then show ?thesis by blast
  next
    case False
    with Cons.prems have "0 \<le> t - fin_val w" "t - fin_val w < sum_list (map fin_val ws)" by auto
    with Cons.IH [of "t - fin_val w" "Suc i"] Cons.prems(1)
    obtain k where "k < length ws" "pick (t - fin_val w) ws (Suc i) = Suc i + k" "0 < fin_val (ws ! k)"
      by auto
    with False have "Suc k < length (w # ws) \<and> pick t (w # ws) i = i + Suc k
        \<and> 0 < fin_val ((w # ws) ! Suc k)" by simp
    then show ?thesis by blast
  qed
qed

lemma multinomial_ok_draw:
  assumes "multinomial_ok ws"
  shows "\<exists>k<length ws. multinomial ws g = Inr (int k, rng_tail g) \<and> 0 < fin_val (ws ! k)"
proof -
  from assms have cnt: "\<forall>w\<in>set ws. is_count w" by (simp add: multinomial_ok_def list_all_iff)
  from assms obtain s where s: "tsum ws = Fin s" "0 < s"
    by (auto simp: multinomial_ok_def split: tfloat.splits)
  then have sl: "sum_list (map fin_val ws) = s" using tsum_counts [OF cnt] by simp
  have "0 \<le> frac (g 0) * s" using s by simp
  moreover have "frac (g 0) * s < sum_list (map fin_val ws)"
    using s sl frac_lt_1 [of "g 0"] by simp
  ultimately obtain k where "k < length ws" "pick (frac (g 0) * s) ws 0 = 0 + k" "0 < fin_val (ws ! k)"
    using pick_positive [OF cnt] by blast
  then show ?thesis using assms s by (auto simp: multinomial_def next_uniform_def constant_rng_def rng_tail_def)
qed

lemma tensor_index_out_of_range:
  "\<not> (- int (length xs) \<le> i \<and> i < int (length xs)) \<Longrightarrow> tensor_index xs i = Inl IndexError"
  by (auto simp: tensor_index_def Let_def)

text \<open>
  Claim C9 (as stated: the sampler fails when the index is out of range or when the
  selected row does not sum to about 1). The program does not look at the sum of the row,
  and \<^verbatim>\<open>torch.multinomial\<close> takes its argument as weights: the row \<open>[1, 1]\<close>, whose sum
  is 2, is sampled and a character is returned.
\<close>

theorem sample_next_character_counterexample:
  "tsum [Fin 1, Fin 1] = Fin 2
   \<and> sample_next_character 0 [[Fin 1, Fin 1]] [0 \<mapsto> ''a'', 1 \<mapsto> ''b''] (constant_rng (3/4))
       = Inr (''b'', constant_rng (3/4))"
  by (simp add: sample_next_character_def tensor_index_def multinomial_def multinomial_ok_def
      next_uniform_def constant_rng_def rng_tail_def)

text \<open>
  Claim C9, amended. \<^verbatim>\<open>sample_next_character\<close> ends with IndexError when the index is
  outside \<open>-N .. N-1\<close> for a matrix of \<open>N\<close> rows (an index from \<open>-N\<close> to \<open>-1\<close> selects a row
  counted from the end). It ends with the RuntimeError of \<^verbatim>\<open>torch.multinomial\<close> when the
  selected row has a negative or non-finite entry or a total that is not positive. Any
  other row is sampled whatever its sum: an index of positive weight is drawn, and the
  call returns its character, or ends with KeyError when \<^verbatim>\<open>idx_to_char\<close> has no such key.
\<close>

theorem sample_next_character_failures:
  "(\<not> (- int (length P) \<le> i \<and> i < int (length P)) \<longrightarrow>
      sample_next_character i P idx_to_char g = Inl IndexError)
   \<and> (\<forall>row. tensor_index P i = Inr row \<and> \<not> multinomial_ok row \<longrightarrow>
        sample_next_character i P idx_to_char g = Inl RuntimeError)
   \<and> (\<forall>row. tensor_index P i = Inr row \<and> multinomial_ok row \<longrightarrow>
        (\<exists>k<length row. 0 < fin_val (row ! k) \<and>
           sample_next_character i P idx_to_char g =
             (case idx_to_char (int k) of
                None \<Rightarrow> Inl (KeyError (KInt (int k)))
              | Some next_char \<Rightarrow> Inr (next_char, rng_tail g))))"
proof (intro conjI allI impI)
  assume "\<not> (- int (length P) \<le> i \<and> i < int (length P))"
  then show "sample_next_character i P idx_to_char g = Inl IndexError"
    by (simp add: sample_next_character_def tensor_index_out_of_range)
next
  fix row assume "tensor_index P i = Inr row \<and> \<not> multinomial_ok row"
  then show "sample_next_character i P idx_to_char g = Inl RuntimeError"
    by (simp add: sample_next_character_def multinomial_def)
next
  fix row assume a: "tensor_index P i = Inr row \<and> multinomial_ok row"
  then obtain k where k: "k < length row" "multinomial row g = Inr (int k, rng_tail g)"
    "0 < fin_val (row ! k)" using multinomial_ok_draw by blast
  then have "sample_next_character i P idx_to_char g =
             (case idx_to_char (int k) of
                None \<Rightarrow> Inl (KeyError (KInt (int k)))
              | Some next_char \<Rightarrow> Inr (next_char, rng_tail g))"
    using a by (simp add: sample_next_character_def split: option.splits)
  with k show "\<exists>k<length row. 0 < fin_val (row ! k) \<and>
           sample_next_character i P idx_to_char g =
             (case idx_to_char (int k) of
                None \<Rightarrow> Inl (KeyError (KInt (int k)))
              | Some next_char \<Rightarrow> Inr (next_char, rng_tail g))" by blast
qed

theorem sample_next_character_failures_witness:
  "sample_next_character 2 [[Fin 1, Fin 1], [Fin 0, Fin 0]] [0 \<mapsto> ''a'', 1 \<mapsto> ''b''] (constant_rng 0)
     = Inl IndexError
   \<and> sample_next_character 1 [[Fin 1, Fin 1], [Fin 0, Fin 0]] [0 \<mapsto> ''a'', 1 \<mapsto> ''b''] (constant_rng 0)
       = Inl RuntimeError
   \<and> sample_next_character (- 2) [[Fin 1, Fin 1], [Fin 0, Fin 0]] [0 \<mapsto> ''a'', 1 \<mapsto> ''b''] (constant_rng 0)
       = Inr (''a'', constant_rng 0)"
proof -
  let ?P = "[[Fin 1, Fin 1], [Fin 0, Fin 0]]"
  let ?m = "[0 \<mapsto> ''a'', 1 \<mapsto> ''b''] :: int \<rightharpoonup> string"
  have h1: "\<not> (- int (length ?P) \<le> 2 \<and> 2 < int (length ?P))" by simp
  have h2: "tensor_index ?P 1 = Inr [Fin 0, Fin 0] \<and> \<not> multinomial_ok [Fin 0, Fin 0]"
    by (simp add: tensor_index_def multinomial_ok_def)
  have h3: "tensor_index ?P (- 2) = Inr [Fin 1, Fin 1] \<and> multinomial_ok [Fin 1, Fin 1]"
    by (simp add: tensor_index_def multinomial_ok_def)
  have a: "sample_next_character 2 ?P ?m (constant_rng 0) = Inl IndexError"
    using sample_next_character_failures [of ?P 2 ?m "constant_rng 0"] h1 by blast
  have b: "sample_next_character 1 ?P ?m (constant_rng 0) = Inl RuntimeError"
    using sample_next_character_failures [of ?P 1 ?m "constant_rng 0"] h2 by blast
  have c: "sample_next_character (- 2) ?P ?m (constant_rng 0) = Inr (''a'', constant_rng 0)"
    by (simp add: sample_next_character_def tensor_index_def multinomial_def multinomial_ok_def
        next_uniform_def constant_rng_def rng_tail_def)
  from a b c show ?thesis by blast
qed

section \<open>Properties of the sequence generator\<close>

lemma sample_next_character_ran:
  "sample_next_character i P idx_to_char g = Inr (c, g') \<Longrightarrow> c \<in> ran idx_to_char"
  by (auto simp: sample_next_character_def ran_def split: sum.splits option.splits prod.splits)

lemma generate_loop_trace:
  "generate_loop n e c2i i2c P cur name g =
     map_sum id (\<lambda>(syms, stopped, g'). (name @ concat syms, g')) (sample_trace n e c2i i2c P cur g)"
proof (induction n arbitrary: cur name g)
  case 0
  then show ?case by simp
next
  case (Suc n)
  show ?case
  proof (cases "c2i cur")
    case None
    then show ?thesis by simp
  next
    case (Some idx)
    note idx = this
    show ?thesis
    proof (cases "sample_next_character idx P i2c g")
      case (Inl err)
      with idx show ?thesis by simp
    next
      case (Inr r)
      obtain c g1 where r: "r = (c, g1)" by (cases r)
      show ?thesis
      proof (cases "c = e")
        case True
        with idx Inr r show ?thesis by simp
      next
        case False
        show ?thesis
        proof (cases "sample_trace n e c2i i2c P c g1")
          case (Inl err)
          with idx Inr r False Suc [of c "name @ c" g1] show ?thesis by simp
        next
          case (Inr t)
          obtain syms stopped g2 where "t = (syms, stopped, g2)" by (cases t)
          with Inr idx \<open>sample_next_character idx P i2c g = Inr r\<close> r False
            Suc [of c "name @ c" g1]
          show ?thesis by simp
        qed
      qed
    qed
  qed
qed

lemma sample_trace_props:
  "sample_trace n e c2i i2c P cur g = Inr (syms, stopped, g') \<Longrightarrow>
     length syms \<le> n \<and> e \<notin> set syms \<and> set syms \<subseteq> ran i2c \<and> (stopped \<longleftrightarrow> length syms < n)"
proof (induction n arbitrary: cur g syms)
  case 0
  then show ?case by simp
next
  case (Suc n)
  from Suc.prems obtain idx c g1 where idx: "c2i cur = Some idx"
    and smp: "sample_next_character idx P i2c g = Inr (c, g1)"
    by (auto split: option.splits sum.splits prod.splits)
  show ?case
  proof (cases "c = e")
    case True
    with Suc.prems idx smp show ?thesis by simp
  next
    case False
    with Suc.prems idx smp obtain syms' where tr: "sample_trace n e c2i i2c P c g1 = Inr (syms', stopped, g')"
      and syms: "syms = c # syms'"
      by (auto split: sum.splits prod.splits)
    from Suc.IH [OF tr] syms False sample_next_character_ran [OF smp]
    show ?thesis by auto
  qed
qed

lemma concat_singletons_length:
  "\<forall>s\<in>set syms. length s = 1 \<Longrightarrow> length (concat syms) = length syms"
  by (induction syms) auto

lemma concat_singletons_mem:
  "\<forall>s\<in>set syms. length s = 1 \<Longrightarrow> c \<in> set (concat syms) \<Longrightarrow> [c] \<in> set syms"
proof (induction syms)
  case Nil
  then show ?case by simp
next
  case (Cons s syms)
  from Cons.prems(1) obtain a where s: "s = [a]" by (cases s) auto
  show ?case
  proof (cases "c = a")
    case True
    with s show ?thesis by simp
  next
    case False
    with Cons.prems s have "c \<in> set (concat syms)" by simp
    with Cons.IH Cons.prems(1) show ?thesis by simp
  qed
qed

text \<open>
  Claim C5 (as stated: the generated string has at most \<open>L\<close> ordinary symbols and never
  contains the end token or the start token). The loop compares the sampled symbol with
  the end token only. With smoothing 1 every symbol has positive probability after the
  start token, the start token included: when it is drawn it is appended, and with
  \<open>L = 1\<close> the result is the start token itself, three characters long.
\<close>

theorem generate_name_counterexample:
  "generate_name ''<S>'' ''<E>'' [''<S>'' \<mapsto> 0, ''<E>'' \<mapsto> 1, ''a'' \<mapsto> 2]
     [0 \<mapsto> ''<S>'', 1 \<mapsto> ''<E>'', 2 \<mapsto> ''a'']
     (bigrams_count_to_probabilities [[Fin 0, Fin 0, Fin 0], [Fin 0, Fin 0, Fin 0], [Fin 0, Fin 0, Fin 0]] 1)
     1 (constant_rng 0) = Inr (''<S>'', constant_rng 0)"
  by (simp add: generate_name_def sample_next_character_def tensor_index_def multinomial_def
      multinomial_ok_def next_uniform_def constant_rng_def rng_tail_def bigrams_count_to_probabilities_def smoothed_counts_def
      normalize_row_def)

text \<open>
  Claim C5, amended. For every \<^verbatim>\<open>max_length\<close> \<open>L\<close>, a string returned by
  \<^verbatim>\<open>generate_name\<close> is the concatenation of the symbols sampled before the loop ended:
  at most \<open>L\<close> symbols (none for \<open>L \<le> 0\<close>), each a value of \<^verbatim>\<open>idx_to_char\<close> and none equal
  to the end token. The loop is left early exactly when the end token is sampled, which
  is then not appended, and this is the case exactly when fewer than \<open>L\<close> symbols were
  appended. When every value of \<^verbatim>\<open>idx_to_char\<close> is one character long, the string has
  at most \<open>L\<close> characters and does not contain a one-character end token. Nothing keeps
  the start token out of the string.
\<close>

theorem generate_name_bounded:
  assumes "generate_name start_token end_token char_to_idx idx_to_char P max_length g = Inr (name, g')"
  shows "\<exists>syms stopped.
           sample_trace (nat max_length) end_token char_to_idx idx_to_char P start_token g
             = Inr (syms, stopped, g')
           \<and> name = concat syms \<and> length syms \<le> nat max_length
           \<and> end_token \<notin> set syms \<and> set syms \<subseteq> ran idx_to_char
           \<and> (stopped \<longleftrightarrow> length syms < nat max_length)
           \<and> ((\<forall>sym\<in>ran idx_to_char. length sym = 1) \<longrightarrow>
                length name \<le> nat max_length \<and> (\<forall>c. end_token = [c] \<longrightarrow> c \<notin> set name))"
proof -
  let ?t = "sample_trace (nat max_length) end_token char_to_idx idx_to_char P start_token g"
  from assms have m: "map_sum id (\<lambda>(syms, stopped, g'). (concat syms, g')) ?t = Inr (name, g')"
    by (simp add: generate_name_def generate_loop_trace)
  then obtain r where r: "?t = Inr r" by (cases ?t) auto
  obtain syms stopped g2 where r2: "r = (syms, stopped, g2)" by (cases r)
  from m r r2 have name: "name = concat syms" and g2: "g2 = g'" by auto
  from r r2 g2 have tr: "?t = Inr (syms, stopped, g')" by simp
  note props = sample_trace_props [OF tr]
  have single: "length name \<le> nat max_length \<and> (\<forall>c. end_token = [c] \<longrightarrow> c \<notin> set name)"
    if h: "\<forall>sym\<in>ran idx_to_char. length sym = 1"
  proof -
    from h props have one: "\<forall>s\<in>set syms. length s = 1" by blast
    have "length name \<le> nat max_length"
      using concat_singletons_length [OF one] props name by simp
    moreover have "c \<notin> set name" if "end_token = [c]" for c
      using concat_singletons_mem [OF one, of c] props name that by blast
    ultimately show ?thesis by blast
  qed
  show ?thesis
    apply (rule exI [of _ syms])
    apply (rule exI [of _ stopped])
    using tr name props single by simp
qed

theorem generate_name_bounded_witness:
  "generate_name ''-'' ''.'' [''-'' \<mapsto> 0, ''.'' \<mapsto> 1, ''a'' \<mapsto> 2] [0 \<mapsto> ''-'', 1 \<mapsto> ''.'', 2 \<mapsto> ''a'']
     [[Fin 0, Fin 0, Fin 1], [Fin 1, Fin 0, Fin 0], [Fin 0, Fin 1, Fin 0]] 3 (constant_rng 0)
     = Inr (''a'', constant_rng 0)
   \<and> sample_trace (nat 3) ''.'' [''-'' \<mapsto> 0, ''.'' \<mapsto> 1, ''a'' \<mapsto> 2] [0 \<mapsto> ''-'', 1 \<mapsto> ''.'', 2 \<mapsto> ''a'']
       [[Fin 0, Fin 0, Fin 1], [Fin 1, Fin 0, Fin 0], [Fin 0, Fin 1, Fin 0]] ''-'' (constant_rng 0)
     = Inr ([''a''], True, constant_rng 0)
   \<and> length ''a'' \<le> nat 3 \<and> CHR ''.'' \<notin> set ''a''"
proof -
  let ?c2i = "[''-'' \<mapsto> 0, ''.'' \<mapsto> 1, ''a'' \<mapsto> 2] :: string \<rightharpoonup> int"
  let ?i2c = "[0 \<mapsto> ''-'', 1 \<mapsto> ''.'', 2 \<mapsto> ''a''] :: int \<rightharpoonup> string"
  let ?P = "[[Fin 0, Fin 0, Fin 1], [Fin 1, Fin 0, Fin 0], [Fin 0, Fin 1, Fin 0]]"
  have n3: "nat 3 = Suc (Suc (Suc 0))" by simp
  have run: "generate_name ''-'' ''.'' ?c2i ?i2c ?P 3 (constant_rng 0) = Inr (''a'', constant_rng 0)"
    unfolding generate_name_def n3
    by (simp add: sample_next_character_def tensor_index_def multinomial_def multinomial_ok_def
        next_uniform_def constant_rng_def rng_tail_def)
  have tr: "sample_trace (nat 3) ''.'' ?c2i ?i2c ?P ''-'' (constant_rng 0) = Inr ([''a''], True, constant_rng 0)"
    unfolding n3
    by (simp add: sample_next_character_def tensor_index_def multinomial_def multinomial_ok_def
        next_uniform_def constant_rng_def rng_tail_def)
  have single: "\<forall>sym\<in>ran ?i2c. length sym = 1"
    by (auto simp: ran_def split: if_splits)
  from generate_name_bounded [OF run] single
  have "length ''a'' \<le> nat 3 \<and> CHR ''.'' \<notin> set ''a''" by blast
  with run tr show ?thesis by blast
qed

section \<open>The worked example\<close>

lemma exp_taylor_bounds:
  fixes x :: real
  assumes "0 \<le> x" and "x \<le> 1"
  shows "(\<Sum>m<n. x ^ m / fact m) \<le> exp x"
    and "exp x \<le> (\<Sum>m<n. x ^ m / fact m) + 3 * x ^ n / fact n"
proof -
  from Maclaurin_exp_le [of x n] obtain t where t: "\<bar>t\<bar> \<le> \<bar>x\<bar>"
    and e: "exp x = (\<Sum>m<n. x ^ m / fact m) + (exp t / fact n) * x ^ n" by blast
  have r0: "0 \<le> (exp t / fact n) * x ^ n" using assms by simp
  have "t \<le> 1" using t assms by linarith
  then have "exp t \<le> exp 1" by simp
  then have "exp t \<le> 3" using exp_le by linarith
  then have "exp t / fact n \<le> 3 / fact n" by (simp add: divide_right_mono)
  then have "(exp t / fact n) * x ^ n \<le> (3 / fact n) * x ^ n"
    using assms by (intro mult_right_mono) auto
  then show "exp x \<le> (\<Sum>m<n. x ^ m / fact m) + 3 * x ^ n / fact n" using e by simp
  show "(\<Sum>m<n. x ^ m / fact m) \<le> exp x" using e r0 by linarith
qed

lemma ln_2_lower: "693147 / 1000000 < ln (2::real)"
proof -
  have "exp (693147 / 1000000 :: real) \<le> (\<Sum>m<10. (693147 / 1000000) ^ m / fact m)
          + 3 * (693147 / 1000000) ^ 10 / fact 10"
    by (rule exp_taylor_bounds) simp_all
  also have "\<dots> < 2"
    by (simp add: eval_nat_numeral lessThan_Suc fact_numeral)
  finally have "exp (693147 / 1000000 :: real) < exp (ln 2)" by simp
  then show ?thesis by (simp only: exp_less_cancel_iff)
qed

lemma ln_2_upper: "ln (2::real) < 6931475 / 10000000"
proof -
  have "(2::real) < (\<Sum>m<10. (6931475 / 10000000) ^ m / fact m)"
    by (simp add: eval_nat_numeral lessThan_Suc fact_numeral)
  also have "\<dots> \<le> exp (6931475 / 10000000)"
    by (rule exp_taylor_bounds) simp_all
  finally have "exp (ln 2) < exp (6931475 / 10000000 :: real)" by simp
  then show ?thesis by (simp only: exp_less_cancel_iff)
qed

lemma two_log_half:
  "- 1386295 / 1000000 < ln (1/2) + ln (1/2 :: real)
   \<and> ln (1/2) + ln (1/2 :: real) < - 1386294 / 1000000"
proof -
  have "ln (1/2 :: real) = - ln 2" by (simp add: ln_div)
  then show ?thesis using ln_2_lower ln_2_upper by simp
qed

text \<open>
  Claim C8 (as stated, with the tokens \<open><S>\<close> and \<open><E>\<close> of the alphabet). The processed
  word is the string \<open><S>a<E>\<close> of seven characters, and the first lookup is that of the
  character \<open><\<close>, which is not a key of the vocabulary: the call ends with KeyError.
\<close>

theorem worked_example_counterexample:
  "calculate_log_likelihood ''a''
     [[Fin 0, Fin 0, Fin (1/2), Fin (1/2)], [Fin (1/4), Fin (1/4), Fin (1/4), Fin (1/4)],
      [Fin 0, Fin (1/2), Fin (1/4), Fin (1/4)], [Fin 0, Fin 1, Fin 0, Fin 0]]
     [''<S>'' \<mapsto> 0, ''<E>'' \<mapsto> 1, ''a'' \<mapsto> 2, ''b'' \<mapsto> 3] ''<S>'' ''<E>''
   = Inl (KeyError (KStr ''<''))"
proof -
  have lw: "lower ''a'' = ''a''" by code_simp
  show ?thesis unfolding calculate_log_likelihood_def lw by simp
qed

text \<open>
  Claim C8, amended. With four symbols at the indices 0 to 3, the count row \<open>[0, 0, 3, 1]\<close>
  and smoothing 1 give the probability row \<open>[1/8, 1/8, 4/8, 2/8]\<close>. When the start and end
  tokens are single characters with the indices 0 and 1 and \<open>a\<close> has the index 2, the score
  of the word \<open>a\<close> under a matrix with \<open>P(start, a) = 0.5\<close> and \<open>P(a, end) = 0.5\<close> is
  \<open>log 0.5 + log 0.5\<close>, a number between \<open>-1.386295\<close> and \<open>-1.386294\<close>.
\<close>

theorem worked_example:
  "bigrams_count_to_probabilities ([Fin 0, Fin 0, Fin 3, Fin 1] # other_rows) 1 ! 0
     = [Fin (1/8), Fin (1/8), Fin (4/8), Fin (2/8)]
   \<and> (char_to_index [s] = Some 0 \<and> char_to_index [e] = Some 1 \<and> char_to_index ''a'' = Some 2
        \<and> tensor_index2 P 0 2 = Inr (Fin (1/2)) \<and> tensor_index2 P 2 1 = Inr (Fin (1/2))
      \<longrightarrow> calculate_log_likelihood ''a'' P char_to_index [s] [e]
            = Inr (Fin (ln (1/2) + ln (1/2))))
   \<and> - 1386295 / 1000000 < ln (1/2) + ln (1/2 :: real)
   \<and> ln (1/2) + ln (1/2 :: real) < - 1386294 / 1000000"
proof -
  have a: "bigrams_count_to_probabilities ([Fin 0, Fin 0, Fin 3, Fin 1] # other_rows) 1 ! 0
     = [Fin (1/8), Fin (1/8), Fin (4/8), Fin (2/8)]"
    by (simp add: bigrams_count_to_probabilities_def smoothed_counts_def normalize_row_def)
  have lw: "lower ''a'' = ''a''" by code_simp
  have b: "calculate_log_likelihood ''a'' P char_to_index [s] [e] = Inr (Fin (ln (1/2) + ln (1/2)))"
    if "char_to_index [s] = Some 0 \<and> char_to_index [e] = Some 1 \<and> char_to_index ''a'' = Some 2
        \<and> tensor_index2 P 0 2 = Inr (Fin (1/2)) \<and> tensor_index2 P 2 1 = Inr (Fin (1/2))"
    using that unfolding calculate_log_likelihood_def lw by simp
  from a b two_log_half show ?thesis by blast
qed

theorem worked_example_witness:
  "[''-'' \<mapsto> 0, ''.'' \<mapsto> 1, ''a'' \<mapsto> 2, ''b'' \<mapsto> (3::int)] ''-'' = Some 0
   \<and> tensor_index2 [[Fin 0, Fin 0, Fin (1/2), Fin (1/2)], [Fin (1/4), Fin (1/4), Fin (1/4), Fin (1/4)],
        [Fin 0, Fin (1/2), Fin (1/4), Fin (1/4)], [Fin 0, Fin 1, Fin 0, Fin 0]] 0 2 = Inr (Fin (1/2))
   \<and> tensor_index2 [[Fin 0, Fin 0, Fin (1/2), Fin (1/2)], [Fin (1/4), Fin (1/4), Fin (1/4), Fin (1/4)],
        [Fin 0, Fin (1/2), Fin (1/4), Fin (1/4)], [Fin 0, Fin 1, Fin 0, Fin 0]] 2 1 = Inr (Fin (1/2))
   \<and> calculate_log_likelihood ''a''
       [[Fin 0, Fin 0, Fin (1/2), Fin (1/2)], [Fin (1/4), Fin (1/4), Fin (1/4), Fin (1/4)],
        [Fin 0, Fin (1/2), Fin (1/4), Fin (1/4)], [Fin 0, Fin 1, Fin 0, Fin 0]]
       [''-'' \<mapsto> 0, ''.'' \<mapsto> 1, ''a'' \<mapsto> 2, ''b'' \<mapsto> 3] ''-'' ''.''
     = Inr (Fin (ln (1/2) + ln (1/2)))"
proof -
  let ?P = "[[Fin 0, Fin 0, Fin (1/2), Fin (1/2)], [Fin (1/4), Fin (1/4), Fin (1/4), Fin (1/4)],
        [Fin 0, Fin (1/2), Fin (1/4), Fin (1/4)], [Fin 0, Fin 1, Fin 0, Fin 0]]"
  let ?v = "[''-'' \<mapsto> 0, ''.'' \<mapsto> 1, ''a'' \<mapsto> 2, ''b'' \<mapsto> (3::int)]"
  have h: "?v [CHR ''-''] = Some 0 \<and> ?v [CHR ''.''] = Some 1 \<and> ?v ''a'' = Some 2
        \<and> tensor_index2 ?P 0 2 = Inr (Fin (1/2)) \<and> tensor_index2 ?P 2 1 = Inr (Fin (1/2))"
    by (simp add: tensor_index2_def tensor_index_def)
  from worked_example [of _ ?v "CHR ''-''" "CHR ''.''" ?P] h
  have "calculate_log_likelihood ''a'' ?P ?v ''-'' ''.'' = Inr (Fin (ln (1/2) + ln (1/2)))"
    by blast
  with h show ?thesis by simp
qed

end
